theory Spec2Isabelle
  imports Complex_Main "HOL-Library.Sublist" "HOL-Library.Log_Nat" "HOL-Library.Word"
begin

section \<open>IQR outlier removal (04\_EDA/06\_Outlier.ipynb)\<close>

text \<open>
  The code cell of the notebook:
  \<^verbatim>\<open>
  titanic = sns.load_dataset('titanic')
  Q1 = titanic['age'].quantile(0.25)
  Q3 = titanic['age'].quantile(0.75)
  IQR = Q3 - Q1
  lower_bound = Q1 - 1.5 * IQR
  upper_bound = Q3 + 1.5 * IQR
  titanic_no_outliers = titanic[(titanic['age'] >= lower_bound) & (titanic['age'] <= upper_bound)]
  print(titanic_no_outliers.head())
  \<close>
  The cell is modelled statement by statement over the notebook's variables. The data
  frame is a value that the cell receives (loading it is not modelled), the column name
  \<open>'age'\<close> is a parameter, and the final \<open>print\<close> only displays.

  Numbers are the machine numbers of the arrays behind a frame: IEEE doubles (float64)
  with round to nearest, ties to even, overflow to the infinities, NaN; and 64-bit
  integers, signed (int64) and unsigned (uint64), with wrap-around. The sign of a zero
  is not kept: no operation of the cell tells the two zeros apart.
\<close>

subsection \<open>Doubles\<close>

text \<open>
  A double is a finite value, an infinity or NaN. A finite value is written as the
  rational number it stands for; \<open>round64\<close> below gives the double nearest to a
  rational, and the arithmetic rounds every result with it.
\<close>

datatype float64 = Fin rat | PInf | NInf | NaN

text \<open>The binary exponent of a positive rational: \<open>2 powi ilog2 x \<le> x < 2 powi (ilog2 x + 1)\<close>.\<close>

definition ilog2 :: "rat \<Rightarrow> int" where
  "ilog2 x =
     (case quotient_of x of (p, q) \<Rightarrow>
        let d = bitlen p - bitlen q in if 2 powi d \<le> x then d else d - 1)"

text \<open>The nearest integer, a tie going to the even one.\<close>

definition rhe :: "rat \<Rightarrow> int" where
  "rhe x =
     (let f = \<lfloor>x\<rfloor>; r = x - rat_of_int f
      in if r < 1 / 2 then f else if 1 / 2 < r then f + 1 else if even f then f else f + 1)"

text \<open>
  Rounding of a non-negative rational to a double: 53 significant bits, the least
  exponent of the last bit -1074 (subnormal numbers). With the last bit at exponent e the
  rounded value is \<open>m * 2 powi e\<close> where \<open>m \<le> 2 ^ 53\<close>; it is replaced by the infinity
  when it reaches \<open>2 ^ 1024\<close>, that is when \<open>e > 971\<close>, or \<open>e = 971\<close> and \<open>m = 2 ^ 53\<close>
  (lemma \<open>round_nonneg_pos\<close> below).
\<close>

definition round_nonneg :: "rat \<Rightarrow> float64" where
  "round_nonneg x =
     (if x = 0 then Fin 0
      else
        let e = max (ilog2 x - 52) (- 1074);
            m = rhe (x / 2 powi e)
        in if 971 < e \<or> (e = 971 \<and> 2 ^ 53 \<le> m) then PInf
           else Fin (rat_of_int m * 2 powi e))"

fun fneg :: "float64 \<Rightarrow> float64" where
  "fneg (Fin a) = Fin (- a)"
| "fneg PInf = NInf"
| "fneg NInf = PInf"
| "fneg NaN = NaN"

definition round64 :: "rat \<Rightarrow> float64" where
  "round64 x = (if x < 0 then fneg (round_nonneg (- x)) else round_nonneg x)"

subsection \<open>Double arithmetic and comparison\<close>

fun fadd :: "float64 \<Rightarrow> float64 \<Rightarrow> float64" where
  "fadd (Fin a) (Fin b) = round64 (a + b)"
| "fadd NaN _ = NaN"
| "fadd _ NaN = NaN"
| "fadd PInf NInf = NaN"
| "fadd NInf PInf = NaN"
| "fadd PInf _ = PInf"
| "fadd _ PInf = PInf"
| "fadd NInf _ = NInf"
| "fadd _ NInf = NInf"

definition fsub :: "float64 \<Rightarrow> float64 \<Rightarrow> float64" where
  "fsub a b = fadd a (fneg b)"

text \<open>The product of an infinity and a finite value: NaN for zero, else by the signs.\<close>

fun inf_times :: "bool \<Rightarrow> rat \<Rightarrow> float64" where
  "inf_times pos b =
     (if b = 0 then NaN else if (0 < b) = pos then PInf else NInf)"

fun fmul :: "float64 \<Rightarrow> float64 \<Rightarrow> float64" where
  "fmul (Fin a) (Fin b) = round64 (a * b)"
| "fmul NaN _ = NaN"
| "fmul _ NaN = NaN"
| "fmul PInf (Fin b) = inf_times True b"
| "fmul NInf (Fin b) = inf_times False b"
| "fmul (Fin a) PInf = inf_times True a"
| "fmul (Fin a) NInf = inf_times False a"
| "fmul PInf PInf = PInf"
| "fmul NInf NInf = PInf"
| "fmul PInf NInf = NInf"
| "fmul NInf PInf = NInf"

text \<open>Every ordered comparison with NaN is False.\<close>

fun fle :: "float64 \<Rightarrow> float64 \<Rightarrow> bool" where
  "fle (Fin a) (Fin b) = (a \<le> b)"
| "fle NaN _ = False"
| "fle _ NaN = False"
| "fle NInf _ = True"
| "fle _ PInf = True"
| "fle _ _ = False"

definition fge :: "float64 \<Rightarrow> float64 \<Rightarrow> bool" where
  "fge a b = fle b a"

subsection \<open>Cells, frames, errors\<close>

text \<open>
  A cell of a frame: a double (NaN is the missing marker), a signed or an unsigned 64-bit
  integer, or a non-numeric object. A column of a frame has one dtype, so the cells of a
  column are all of one kind; on such a column the operations on cells below are the
  operations of its array.
\<close>

datatype cell = F float64 | I "64 word" | U "64 word" | Obj string

datatype error = KeyError | TypeError | ValueError | NameError

text \<open>A row carries its index label and one cell per column.\<close>

type_synonym row = "nat \<times> cell list"

record table =
  columns :: "string list"
  rows :: "row list"

text \<open>The cast of a cell to float64: an integer becomes the nearest double.\<close>

fun to_float :: "cell \<Rightarrow> float64" where
  "to_float (F v) = v"
| "to_float (I w) = round64 (rat_of_int (sint w))"
| "to_float (U w) = round64 (rat_of_int (uint w))"
| "to_float (Obj _) = NaN"

text \<open>The number a cell holds, exactly.\<close>

fun value_of :: "cell \<Rightarrow> float64" where
  "value_of (F v) = v"
| "value_of (I w) = Fin (rat_of_int (sint w))"
| "value_of (U w) = Fin (rat_of_int (uint w))"
| "value_of (Obj _) = NaN"

subsection \<open>Frame and series operations\<close>

fun index_of :: "string list \<Rightarrow> string \<Rightarrow> nat option" where
  "index_of [] c = None"
| "index_of (x # xs) c = (if x = c then Some 0 else map_option Suc (index_of xs c))"

text \<open>A row that is shorter than the header holds NaN in the columns it lacks.\<close>

definition cell_at :: "nat \<Rightarrow> row \<Rightarrow> cell" where
  "cell_at j r = (if j < length (snd r) then snd r ! j else F NaN)"

text \<open>\<^verbatim>\<open>df[c]\<close>: the column as a series, KeyError when the frame has no such column.\<close>

definition getitem :: "table \<Rightarrow> string \<Rightarrow> error + cell list" where
  "getitem t c =
     (case index_of (columns t) c of
        None \<Rightarrow> Inl KeyError
      | Some j \<Rightarrow> Inr (map (cell_at j) (rows t)))"

fun is_obj :: "cell \<Rightarrow> bool" where
  "is_obj (Obj _) = True"
| "is_obj _ = False"

text \<open>The non-missing cells of a series.\<close>

fun dropna :: "cell list \<Rightarrow> cell list" where
  "dropna [] = []"
| "dropna (F NaN # cs) = dropna cs"
| "dropna (c # cs) = c # dropna cs"

text \<open>The cells in ascending order of the numbers they hold.\<close>

fun insort_cell :: "cell \<Rightarrow> cell list \<Rightarrow> cell list" where
  "insort_cell x [] = [x]"
| "insort_cell x (y # ys) =
     (if fle (value_of x) (value_of y) then x # y # ys else y # insort_cell x ys)"

definition sort_cells :: "cell list \<Rightarrow> cell list" where
  "sort_cells xs = foldr insort_cell xs []"

text \<open>
  \<^verbatim>\<open>subtract(b, a)\<close> on two elements of an array: in the array's own type, so with
  wrap-around on integers and with rounding on doubles.
\<close>

fun subtract :: "cell \<Rightarrow> cell \<Rightarrow> cell" where
  "subtract (I b) (I a) = I (b - a)"
| "subtract (U b) (U a) = U (b - a)"
| "subtract b a = F (fsub (to_float b) (to_float a))"

text \<open>
  The interpolation between two neighbours a and b at the weight t, as
  \<^verbatim>\<open>numpy\<close> computes it: the difference \<^verbatim>\<open>b - a\<close> first, in the array's type;
  then \<^verbatim>\<open>a + (b - a) * t\<close> in doubles, and \<^verbatim>\<open>b - (b - a) * (1 - t)\<close> instead
  where \<^verbatim>\<open>t >= 0.5\<close>.
\<close>

definition lerp :: "cell \<Rightarrow> cell \<Rightarrow> float64 \<Rightarrow> float64" where
  "lerp a b t =
     (let diff_b_a = subtract b a
      in if fge t (Fin (1 / 2))
         then fsub (to_float b) (fmul (to_float diff_b_a) (fsub (Fin 1) t))
         else fadd (to_float a) (fmul (to_float diff_b_a) t))"

text \<open>
  Linear interpolation of the q-quantile of a non-empty array (the default method of
  \<^verbatim>\<open>numpy.percentile\<close>, on which the series method relies): with the elements
  sorted, the value at the fractional position \<open>(n - 1) * q\<close> is interpolated between
  its two neighbours. A position that reaches the last index takes the last element for
  both neighbours (index -1) and the distance from -1 for the weight.
\<close>

definition percentile_linear :: "cell list \<Rightarrow> rat \<Rightarrow> float64" where
  "percentile_linear vs q =
     (let a = sort_cells vs;
          n = length a
      in case fmul (round64 (rat_of_nat (n - 1))) (Fin q) of
           Fin pos \<Rightarrow>
             if rat_of_nat (n - 1) \<le> pos
             then lerp (a ! (n - 1)) (a ! (n - 1)) (fsub (Fin pos) (Fin (- 1)))
             else
               let lo = nat \<lfloor>pos\<rfloor>
               in lerp (a ! lo) (a ! (lo + 1)) (fsub (Fin pos) (Fin (rat_of_int \<lfloor>pos\<rfloor>)))
         | _ \<Rightarrow> NaN)"

text \<open>
  \<^verbatim>\<open>Series.quantile(q)\<close>: q outside [0, 1] is a ValueError, a series of objects is a
  TypeError, NaN is skipped, and a series with no number left gives NaN.
\<close>

definition quantile :: "cell list \<Rightarrow> rat \<Rightarrow> error + float64" where
  "quantile s q =
     (if q < 0 \<or> 1 < q then Inl ValueError
      else if list_ex is_obj s then Inl TypeError
      else if dropna s = [] then Inr NaN
      else Inr (percentile_linear (dropna s) q))"

text \<open>
  \<^verbatim>\<open>series >= x\<close> and \<^verbatim>\<open>series <= x\<close> with a double x: elementwise on the series
  cast to float64, TypeError on an object.
\<close>

fun series_ge :: "cell list \<Rightarrow> float64 \<Rightarrow> error + bool list" where
  "series_ge [] x = Inr []"
| "series_ge (Obj _ # cs) x = Inl TypeError"
| "series_ge (c # cs) x =
     (case series_ge cs x of Inl e \<Rightarrow> Inl e | Inr bs \<Rightarrow> Inr (fge (to_float c) x # bs))"

fun series_le :: "cell list \<Rightarrow> float64 \<Rightarrow> error + bool list" where
  "series_le [] x = Inr []"
| "series_le (Obj _ # cs) x = Inl TypeError"
| "series_le (c # cs) x =
     (case series_le cs x of Inl e \<Rightarrow> Inl e | Inr bs \<Rightarrow> Inr (fle (to_float c) x # bs))"

text \<open>\<^verbatim>\<open>m1 & m2\<close> on two boolean series over the same index.\<close>

definition series_and :: "bool list \<Rightarrow> bool list \<Rightarrow> bool list" where
  "series_and m1 m2 = map (\<lambda>(a, b). a \<and> b) (zip m1 m2)"

text \<open>
  \<^verbatim>\<open>df[mask]\<close>: a new frame with the rows whose mask entry is True, in the frame's order;
  a mask of another length is a ValueError.
\<close>

definition getitem_mask :: "table \<Rightarrow> bool list \<Rightarrow> error + table" where
  "getitem_mask t m =
     (if length m \<noteq> length (rows t) then Inl ValueError
      else Inr \<lparr>columns = columns t, rows = map fst (filter snd (zip (rows t) m))\<rparr>)"

subsection \<open>The notebook's variables and the cell\<close>

record env =
  titanic :: table
  Q1 :: "float64 option"
  Q3 :: "float64 option"
  IQR :: "float64 option"
  lower_bound :: "float64 option"
  upper_bound :: "float64 option"
  titanic_no_outliers :: "table option"

text \<open>Reading a variable that no statement has assigned is a NameError.\<close>

fun var :: "'a option \<Rightarrow> error + 'a" where
  "var None = Inl NameError"
| "var (Some v) = Inr v"

text \<open>Evaluation order inside a statement: the first error ends the statement.\<close>

fun and_then :: "error + 'a \<Rightarrow> ('a \<Rightarrow> error + 'b) \<Rightarrow> error + 'b" where
  "and_then (Inl e) f = Inl e"
| "and_then (Inr v) f = f v"

definition assign_Q1 :: "string \<Rightarrow> env \<Rightarrow> error + env" where
  "assign_Q1 c s =
     and_then (getitem (titanic s) c) (\<lambda>col.
     and_then (quantile col (1/4)) (\<lambda>v.
     Inr (s\<lparr>Q1 := Some v\<rparr>)))"

definition assign_Q3 :: "string \<Rightarrow> env \<Rightarrow> error + env" where
  "assign_Q3 c s =
     and_then (getitem (titanic s) c) (\<lambda>col.
     and_then (quantile col (3/4)) (\<lambda>v.
     Inr (s\<lparr>Q3 := Some v\<rparr>)))"

definition assign_IQR :: "env \<Rightarrow> error + env" where
  "assign_IQR s =
     and_then (var (Q3 s)) (\<lambda>q3.
     and_then (var (Q1 s)) (\<lambda>q1.
     Inr (s\<lparr>IQR := Some (fsub q3 q1)\<rparr>)))"

definition assign_lower_bound :: "env \<Rightarrow> error + env" where
  "assign_lower_bound s =
     and_then (var (Q1 s)) (\<lambda>q1.
     and_then (var (IQR s)) (\<lambda>iqr.
     Inr (s\<lparr>lower_bound := Some (fsub q1 (fmul (Fin (3/2)) iqr))\<rparr>)))"

definition assign_upper_bound :: "env \<Rightarrow> error + env" where
  "assign_upper_bound s =
     and_then (var (Q3 s)) (\<lambda>q3.
     and_then (var (IQR s)) (\<lambda>iqr.
     Inr (s\<lparr>upper_bound := Some (fadd q3 (fmul (Fin (3/2)) iqr))\<rparr>)))"

definition assign_titanic_no_outliers :: "string \<Rightarrow> env \<Rightarrow> error + env" where
  "assign_titanic_no_outliers c s =
     and_then (getitem (titanic s) c) (\<lambda>col1.
     and_then (var (lower_bound s)) (\<lambda>lo.
     and_then (series_ge col1 lo) (\<lambda>m1.
     and_then (getitem (titanic s) c) (\<lambda>col2.
     and_then (var (upper_bound s)) (\<lambda>hi.
     and_then (series_le col2 hi) (\<lambda>m2.
     and_then (getitem_mask (titanic s) (series_and m1 m2)) (\<lambda>t'.
     Inr (s\<lparr>titanic_no_outliers := Some t'\<rparr>))))))))"

text \<open>
  Statements run in order. An exception ends the cell and leaves the variables as the
  statements before it set them.
\<close>

fun exec :: "(env \<Rightarrow> error + env) list \<Rightarrow> env \<Rightarrow> env \<times> error option" where
  "exec [] s = (s, None)"
| "exec (st # sts) s = (case st s of Inl e \<Rightarrow> (s, Some e) | Inr s' \<Rightarrow> exec sts s')"

definition run_cell :: "string \<Rightarrow> env \<Rightarrow> env \<times> error option" where
  "run_cell c s =
     exec [assign_Q1 c, assign_Q3 c, assign_IQR, assign_lower_bound, assign_upper_bound,
           assign_titanic_no_outliers c] s"

text \<open>A session in which only the frame has been loaded.\<close>

definition loaded :: "table \<Rightarrow> env" where
  "loaded t = \<lparr>titanic = t, Q1 = None, Q3 = None, IQR = None, lower_bound = None,
               upper_bound = None, titanic_no_outliers = None\<rparr>"

text \<open>The cell as a function from the frame and the column name to the filtered frame.\<close>

definition remove_outliers :: "table \<Rightarrow> string \<Rightarrow> error + table" where
  "remove_outliers t c =
     (case run_cell c (loaded t) of
        (s, Some e) \<Rightarrow> Inl e
      | (s, None) \<Rightarrow> var (titanic_no_outliers s))"

subsection \<open>Auxiliary functions for the statements below\<close>

text \<open>
  The inclusive range test on a cell, as the two comparisons make it: on the cell cast to
  float64, either end included.
\<close>

definition in_bounds :: "float64 \<Rightarrow> float64 \<Rightarrow> cell \<Rightarrow> bool" where
  "in_bounds lo hi c = (fge (to_float c) lo \<and> fle (to_float c) hi)"

text \<open>The quantile of a numeric series, as a double.\<close>

definition quartile :: "cell list \<Rightarrow> rat \<Rightarrow> float64" where
  "quartile col q = (if dropna col = [] then NaN else percentile_linear (dropna col) q)"

text \<open>The variables after a successful run of the cell, when the column is at position j.\<close>

definition outcome :: "env \<Rightarrow> nat \<Rightarrow> env" where
  "outcome s j =
     (let col = map (cell_at j) (rows (titanic s));
          q1 = quartile col (1/4);
          q3 = quartile col (3/4);
          iqr = fsub q3 q1;
          lo = fsub q1 (fmul (Fin (3/2)) iqr);
          hi = fadd q3 (fmul (Fin (3/2)) iqr)
      in s\<lparr>Q1 := Some q1, Q3 := Some q3, IQR := Some iqr, lower_bound := Some lo,
            upper_bound := Some hi,
            titanic_no_outliers := Some \<lparr>columns = columns (titanic s),
              rows = filter (\<lambda>r. in_bounds lo hi (cell_at j r)) (rows (titanic s))\<rparr>\<rparr>)"


text \<open>Whether a run returned a frame that holds, or lacks, a given row.\<close>

fun kept :: "row \<Rightarrow> error + table \<Rightarrow> bool" where
  "kept r (Inr t) = (r \<in> set (rows t))"
| "kept r (Inl e) = False"

fun dropped :: "row \<Rightarrow> error + table \<Rightarrow> bool" where
  "dropped r (Inr t) = (r \<notin> set (rows t))"
| "dropped r (Inl e) = False"

text \<open>The frame without the rows whose cell in column j is missing.\<close>

definition without_missing :: "nat \<Rightarrow> table \<Rightarrow> table" where
  "without_missing j t = \<lparr>columns = columns t, rows = filter (\<lambda>r. cell_at j r \<noteq> F NaN) (rows t)\<rparr>"

subsection \<open>Example frames\<close>

text \<open>The ages of the specification's example, as a frame with the single column age.\<close>

definition ages :: table where
  "ages = \<lparr>columns = [''age''],
           rows = [(0, [F (Fin 22)]), (1, [F (Fin 38)]), (2, [F (Fin 26)]), (3, [F (Fin 35)]),
                   (4, [F (Fin 35)]), (5, [F (Fin 2)]), (6, [F (Fin 80)])]\<rparr>"

text \<open>
  Five ages of which the largest is an outlier of the frame, and the next an outlier of
  what remains; what the cell returns for it, and what it returns for that.
\<close>

definition skewed :: table where
  "skewed = \<lparr>columns = [''name'', ''age''],
             rows = [(0, [Obj ''a'', F (Fin 0)]), (1, [Obj ''b'', F (Fin 0)]),
                     (2, [Obj ''c'', F (Fin 0)]), (3, [Obj ''d'', F (Fin 1)]),
                     (4, [Obj ''e'', F (Fin 3)])]\<rparr>"

definition skewed_once :: table where
  "skewed_once = \<lparr>columns = [''name'', ''age''],
             rows = [(0, [Obj ''a'', F (Fin 0)]), (1, [Obj ''b'', F (Fin 0)]),
                     (2, [Obj ''c'', F (Fin 0)]), (3, [Obj ''d'', F (Fin 1)])]\<rparr>"

definition skewed_twice :: table where
  "skewed_twice = \<lparr>columns = [''name'', ''age''],
             rows = [(0, [Obj ''a'', F (Fin 0)]), (1, [Obj ''b'', F (Fin 0)]),
                     (2, [Obj ''c'', F (Fin 0)])]\<rparr>"

text \<open>A column of missing values only, a frame without the column, a column with an object.\<close>

definition all_missing :: table where
  "all_missing = \<lparr>columns = [''age''], rows = [(0, [F NaN]), (1, [F NaN])]\<rparr>"

definition no_age :: table where
  "no_age = \<lparr>columns = [''name''], rows = [(0, [Obj ''a'']), (1, [Obj ''b''])]\<rparr>"

definition age_words :: table where
  "age_words = \<lparr>columns = [''age''], rows = [(0, [Obj ''young'']), (1, [F (Fin 38)])]\<rparr>"

text \<open>Ages with a missing entry.\<close>

definition with_missing :: table where
  "with_missing = \<lparr>columns = [''name'', ''age''],
     rows = [(0, [Obj ''a'', F (Fin 22)]), (1, [Obj ''b'', F (Fin 38)]),
             (2, [Obj ''c'', F NaN]), (3, [Obj ''d'', F (Fin 35)]),
             (4, [Obj ''e'', F (Fin 35)]), (5, [Obj ''f'', F (Fin 2)]),
             (6, [Obj ''g'', F (Fin 80)])]\<rparr>"

text \<open>The constant 7 with one value 1007.\<close>

definition constant_with_outlier :: table where
  "constant_with_outlier = \<lparr>columns = [''age''],
     rows = [(0, [F (Fin 7)]), (1, [F (Fin 7)]), (2, [F (Fin 1007)]), (3, [F (Fin 7)]),
             (4, [F (Fin 7)])]\<rparr>"

text \<open>
  An unsigned column: four times \<open>2 ^ 63\<close> and once \<open>2 ^ 63 + 1000\<close>, which is the same
  double.
\<close>

definition large_unsigned :: table where
  "large_unsigned = \<lparr>columns = [''age''],
     rows = [(0, [U 9223372036854775808]), (1, [U 9223372036854775808]),
             (2, [U 9223372036854775808]), (3, [U 9223372036854775808]),
             (4, [U 9223372036854776808])]\<rparr>"


section \<open>The cell in closed form\<close>

lemma select_by_mask: "map fst (filter snd (zip xs (map P xs))) = filter P xs"
  by (induction xs) auto

lemma series_ge_numeric:
  "\<not> list_ex is_obj (map f rs) \<Longrightarrow>
   series_ge (map f rs) x = Inr (map (\<lambda>r. fge (to_float (f r)) x) rs)"
proof (induction rs)
  case Nil
  show ?case by simp
next
  case (Cons r rs)
  then show ?case by (cases "f r") auto
qed

lemma series_le_numeric:
  "\<not> list_ex is_obj (map f rs) \<Longrightarrow>
   series_le (map f rs) x = Inr (map (\<lambda>r. fle (to_float (f r)) x) rs)"
proof (induction rs)
  case Nil
  show ?case by simp
next
  case (Cons r rs)
  then show ?case by (cases "f r") auto
qed

lemma series_and_map:
  "series_and (map f xs) (map g xs) = map (\<lambda>x. f x \<and> g x) xs"
  by (induction xs) (auto simp: series_and_def)

lemma quantile_numeric:
  "\<not> list_ex is_obj col \<Longrightarrow> 0 \<le> q \<Longrightarrow> q \<le> 1 \<Longrightarrow> quantile col q = Inr (quartile col q)"
  by (simp add: quantile_def quartile_def)

lemma quantile_object:
  "list_ex is_obj col \<Longrightarrow> 0 \<le> q \<Longrightarrow> q \<le> 1 \<Longrightarrow> quantile col q = Inl TypeError"
  by (simp add: quantile_def)

lemma assign_titanic_no_outliers_numeric:
  assumes "index_of (columns (titanic s)) c = Some j"
    and "\<not> list_ex is_obj (map (cell_at j) (rows (titanic s)))"
    and "lower_bound s = Some lo" and "upper_bound s = Some hi"
  shows "assign_titanic_no_outliers c s =
    Inr (s\<lparr>titanic_no_outliers := Some \<lparr>columns = columns (titanic s),
       rows = filter (\<lambda>r. in_bounds lo hi (cell_at j r)) (rows (titanic s))\<rparr>\<rparr>)"
proof -
  let ?rs = "rows (titanic s)"
  let ?P = "\<lambda>r. fge (to_float (cell_at j r)) lo \<and> fle (to_float (cell_at j r)) hi"
  have ge: "series_ge (map (cell_at j) ?rs) lo = Inr (map (\<lambda>r. fge (to_float (cell_at j r)) lo) ?rs)"
    by (rule series_ge_numeric [OF assms(2)])
  have le: "series_le (map (cell_at j) ?rs) hi = Inr (map (\<lambda>r. fle (to_float (cell_at j r)) hi) ?rs)"
    by (rule series_le_numeric [OF assms(2)])
  have m: "series_and (map (\<lambda>r. fge (to_float (cell_at j r)) lo) ?rs)
             (map (\<lambda>r. fle (to_float (cell_at j r)) hi) ?rs) = map ?P ?rs"
    by (rule series_and_map)
  have sel: "getitem_mask (titanic s) (map ?P ?rs) =
      Inr \<lparr>columns = columns (titanic s),
           rows = filter (\<lambda>r. in_bounds lo hi (cell_at j r)) ?rs\<rparr>"
    unfolding getitem_mask_def select_by_mask in_bounds_def by simp
  show ?thesis
    unfolding assign_titanic_no_outliers_def getitem_def assms(1,3,4)
    by (simp only: option.case and_then.simps var.simps ge le m sel)
qed

lemma run_cell_numeric:
  assumes "index_of (columns (titanic s)) c = Some j"
    and "\<not> list_ex is_obj (map (cell_at j) (rows (titanic s)))"
  shows "run_cell c s = (outcome s j, None)"
  using assms(2)
  by (simp add: run_cell_def assign_Q1_def assign_Q3_def assign_IQR_def assign_lower_bound_def
      assign_upper_bound_def getitem_def assms(1) quantile_numeric
      assign_titanic_no_outliers_numeric [where j = j] outcome_def Let_def)

lemma run_cell_missing_column:
  assumes "index_of (columns (titanic s)) c = None"
  shows "run_cell c s = (s, Some KeyError)"
  by (simp add: run_cell_def assign_Q1_def getitem_def assms)

lemma run_cell_object_column:
  assumes "index_of (columns (titanic s)) c = Some j"
    and "list_ex is_obj (map (cell_at j) (rows (titanic s)))"
  shows "run_cell c s = (s, Some TypeError)"
  using assms(2)
  by (simp add: run_cell_def assign_Q1_def getitem_def assms(1) quantile_object)

lemma run_cell_success:
  assumes "run_cell c s = (s', None)"
  obtains j where "index_of (columns (titanic s)) c = Some j"
    and "\<not> list_ex is_obj (map (cell_at j) (rows (titanic s)))"
    and "s' = outcome s j"
proof (cases "index_of (columns (titanic s)) c")
  case None
  with assms show ?thesis by (simp add: run_cell_missing_column)
next
  case (Some j)
  show ?thesis
  proof (cases "list_ex is_obj (map (cell_at j) (rows (titanic s)))")
    case True
    with assms Some show ?thesis by (simp add: run_cell_object_column)
  next
    case False
    with assms Some that show ?thesis by (simp add: run_cell_numeric)
  qed
qed

lemma run_cell_failure:
  assumes "run_cell c s = (s', Some e)"
  shows "s' = s"
proof (cases "index_of (columns (titanic s)) c")
  case None
  with assms show ?thesis by (simp add: run_cell_missing_column)
next
  case (Some j)
  show ?thesis
  proof (cases "list_ex is_obj (map (cell_at j) (rows (titanic s)))")
    case True
    with assms Some show ?thesis by (simp add: run_cell_object_column)
  next
    case False
    with assms Some show ?thesis by (simp add: run_cell_numeric)
  qed
qed

lemma dropna_all_missing: "\<forall>x\<in>set col. x = F NaN \<Longrightarrow> dropna col = []"
  by (induction col) auto

lemma not_obj_all_missing: "\<forall>x\<in>set col. x = F NaN \<Longrightarrow> \<not> list_ex is_obj col"
  by (induction col) auto

lemma in_bounds_NaN [simp]: "in_bounds NaN hi x = False" "in_bounds lo NaN x = False"
  by (cases "to_float x"; simp add: in_bounds_def fge_def)+

lemma list_ex_filter: "\<not> list_ex P (map f xs) \<Longrightarrow> \<not> list_ex P (map f (filter Q xs))"
  by (induction xs) auto

lemma in_bounds_not_missing: "in_bounds lo hi x \<Longrightarrow> x \<noteq> F NaN"
  by (auto simp: in_bounds_def)

lemma dropna_without_missing:
  "dropna (map f (filter (\<lambda>r. f r \<noteq> F NaN) rs)) = dropna (map f rs)"
proof (induction rs)
  case Nil
  show ?case by simp
next
  case (Cons r rs)
  then show ?case by (cases "(map f (r # rs))" rule: dropna.cases) auto
qed

subsection \<open>Rounding to the nearest double\<close>






















lemma round_nonneg_not_NaN [simp]: "round_nonneg x \<noteq> NaN" "round_nonneg x \<noteq> NInf"
  by (simp_all add: round_nonneg_def Let_def)





lemma round64_zero [simp]: "round64 0 = Fin 0"
  by (simp add: round64_def round_nonneg_def)

subsection \<open>Results of the arithmetic are doubles\<close>










section \<open>The cell on the example frames\<close>

lemma run_ages:
  "run_cell ''age'' (loaded ages) =
     (loaded ages
        \<lparr>Q1 := Some (Fin 24), Q3 := Some (Fin (73 / 2)), IQR := Some (Fin (25 / 2)),
         lower_bound := Some (Fin (21 / 4)), upper_bound := Some (Fin (221 / 4)),
         titanic_no_outliers := Some \<lparr>columns = [''age''],
           rows = [(0, [F (Fin 22)]), (1, [F (Fin 38)]), (2, [F (Fin 26)]),
                   (3, [F (Fin 35)]), (4, [F (Fin 35)])]\<rparr>\<rparr>, None)"
  by code_simp

lemma run_skewed:
  "run_cell ''age'' (loaded skewed) =
     (loaded skewed
        \<lparr>Q1 := Some (Fin 0), Q3 := Some (Fin 1), IQR := Some (Fin 1),
         lower_bound := Some (Fin (- 3 / 2)), upper_bound := Some (Fin (5 / 2)),
         titanic_no_outliers := Some skewed_once\<rparr>, None)"
  by code_simp

lemma run_skewed_once:
  "run_cell ''age'' (loaded skewed_once) =
     (loaded skewed_once
        \<lparr>Q1 := Some (Fin 0), Q3 := Some (Fin (1 / 4)), IQR := Some (Fin (1 / 4)),
         lower_bound := Some (Fin (- 3 / 8)), upper_bound := Some (Fin (5 / 8)),
         titanic_no_outliers := Some skewed_twice\<rparr>, None)"
  by code_simp

lemma run_all_missing:
  "run_cell ''age'' (loaded all_missing) =
     (loaded all_missing
        \<lparr>Q1 := Some NaN, Q3 := Some NaN, IQR := Some NaN, lower_bound := Some NaN,
         upper_bound := Some NaN,
         titanic_no_outliers := Some \<lparr>columns = [''age''], rows = []\<rparr>\<rparr>, None)"
  by code_simp

lemma run_with_missing:
  "run_cell ''age'' (loaded with_missing) =
     (loaded with_missing
        \<lparr>Q1 := Some (Fin (101 / 4)), Q3 := Some (Fin (149 / 4)), IQR := Some (Fin 12),
         lower_bound := Some (Fin (29 / 4)), upper_bound := Some (Fin (221 / 4)),
         titanic_no_outliers := Some \<lparr>columns = [''name'', ''age''],
           rows = [(0, [Obj ''a'', F (Fin 22)]), (1, [Obj ''b'', F (Fin 38)]),
                   (3, [Obj ''d'', F (Fin 35)]), (4, [Obj ''e'', F (Fin 35)])]\<rparr>\<rparr>, None)"
  by code_simp

lemma run_constant_with_outlier:
  "run_cell ''age'' (loaded constant_with_outlier) =
     (loaded constant_with_outlier
        \<lparr>Q1 := Some (Fin 7), Q3 := Some (Fin 7), IQR := Some (Fin 0),
         lower_bound := Some (Fin 7), upper_bound := Some (Fin 7),
         titanic_no_outliers := Some \<lparr>columns = [''age''],
           rows = [(0, [F (Fin 7)]), (1, [F (Fin 7)]), (3, [F (Fin 7)]), (4, [F (Fin 7)])]\<rparr>\<rparr>,
      None)"
  by code_simp

lemma run_large_unsigned:
  "run_cell ''age'' (loaded large_unsigned) =
     (loaded large_unsigned
        \<lparr>Q1 := Some (Fin 9223372036854775808), Q3 := Some (Fin 9223372036854775808),
         IQR := Some (Fin 0), lower_bound := Some (Fin 9223372036854775808),
         upper_bound := Some (Fin 9223372036854775808),
         titanic_no_outliers := Some large_unsigned\<rparr>, None)"
  by code_simp

lemma run_no_age: "run_cell ''age'' (loaded no_age) = (loaded no_age, Some KeyError)"
  by code_simp

lemma run_age_words: "run_cell ''age'' (loaded age_words) = (loaded age_words, Some TypeError)"
  by code_simp

section \<open>The claims\<close>

subsection \<open>C1: the ages of the example\<close>

text \<open>
  C1, as stated: on the ages 22, 38, 26, 35, 35, 2, 80 the filter drops the row with age 80
  and retains the row with age 2. The code does not: the row with age 2 is not in the
  returned frame.
\<close>

theorem ages_example_counterexample:
  "\<not> (dropped (6, [F (Fin 80)]) (remove_outliers ages ''age'') \<and>
      kept (5, [F (Fin 2)]) (remove_outliers ages ''age''))"
  by (simp add: remove_outliers_def run_ages)

text \<open>
  C1, amended: on these ages the linear interpolation gives Q1 = 24 and Q3 = 36.5, hence
  IQR = 12.5 and the bounds 5.25 and 55.25; the filter drops the row with age 80 and also
  the row with age 2, and returns the other five rows.
\<close>

theorem ages_example:
  "run_cell ''age'' (loaded ages) =
     (loaded ages
        \<lparr>Q1 := Some (Fin 24), Q3 := Some (Fin (73 / 2)), IQR := Some (Fin (25 / 2)),
         lower_bound := Some (Fin (21 / 4)), upper_bound := Some (Fin (221 / 4)),
         titanic_no_outliers := Some \<lparr>columns = [''age''],
           rows = [(0, [F (Fin 22)]), (1, [F (Fin 38)]), (2, [F (Fin 26)]),
                   (3, [F (Fin 35)]), (4, [F (Fin 35)])]\<rparr>\<rparr>, None) \<and>
   dropped (6, [F (Fin 80)]) (remove_outliers ages ''age'') \<and>
   dropped (5, [F (Fin 2)]) (remove_outliers ages ''age'')"
  by (simp add: remove_outliers_def run_ages)

subsection \<open>C2: filtering the output again\<close>

text \<open>
  C2, as stated: a second application of the cell to the output of a first returns that
  output. On the ages 0, 0, 0, 1, 3 the first application drops 3 (bounds -1.5 and 2.5),
  and the second, whose quartiles are those of 0, 0, 0, 1, drops 1 (bounds -0.375 and
  0.625).
\<close>

theorem refilter_counterexample:
  "remove_outliers skewed ''age'' = Inr skewed_once \<and>
   remove_outliers skewed_once ''age'' = Inr skewed_twice \<and>
   skewed_twice \<noteq> skewed_once"
  unfolding remove_outliers_def run_skewed run_skewed_once
  by (simp add: skewed_once_def skewed_twice_def)

text \<open>
  C2, amended: after a successful run, the filtering statement applied to the output with
  the bounds of that run changes nothing: the output is returned again. A whole second
  run on the output, which computes the quartiles anew, succeeds and returns a
  subsequence of the output.
\<close>

theorem refilter_with_same_bounds:
  assumes "run_cell c s = (s', None)" and "titanic_no_outliers s' = Some out"
  shows "assign_titanic_no_outliers c (s'\<lparr>titanic := out\<rparr>) = Inr (s'\<lparr>titanic := out\<rparr>) \<and>
         (\<exists>s'' out2. run_cell c (s'\<lparr>titanic := out\<rparr>) = (s'', None) \<and>
             titanic_no_outliers s'' = Some out2 \<and> subseq (rows out2) (rows out))"
proof -
  from assms(1) obtain j where j: "index_of (columns (titanic s)) c = Some j"
    and num: "\<not> list_ex is_obj (map (cell_at j) (rows (titanic s)))"
    and s': "s' = outcome s j" by (rule run_cell_success)
  obtain lo hi where lo: "lower_bound s' = Some lo" and hi: "upper_bound s' = Some hi"
    and out: "out = \<lparr>columns = columns (titanic s),
                rows = filter (\<lambda>r. in_bounds lo hi (cell_at j r)) (rows (titanic s))\<rparr>"
    using assms(2) unfolding s' by (simp add: outcome_def Let_def)
  let ?s2 = "s'\<lparr>titanic := out\<rparr>"
  have j2: "index_of (columns (titanic ?s2)) c = Some j" using j out by simp
  have num2: "\<not> list_ex is_obj (map (cell_at j) (rows (titanic ?s2)))"
    using list_ex_filter [OF num] out by simp
  have "assign_titanic_no_outliers c ?s2 =
      Inr (?s2\<lparr>titanic_no_outliers := Some \<lparr>columns = columns (titanic ?s2),
        rows = filter (\<lambda>r. in_bounds lo hi (cell_at j r)) (rows (titanic ?s2))\<rparr>\<rparr>)"
    using j2 num2 by (rule assign_titanic_no_outliers_numeric) (simp_all add: lo hi)
  also have "\<lparr>columns = columns (titanic ?s2),
        rows = filter (\<lambda>r. in_bounds lo hi (cell_at j r)) (rows (titanic ?s2))\<rparr> = out"
    by (simp add: out)
  also have "?s2\<lparr>titanic_no_outliers := Some out\<rparr> = ?s2"
    using assms(2) by simp
  finally have first: "assign_titanic_no_outliers c ?s2 = Inr ?s2" .
  have "run_cell c ?s2 = (outcome ?s2 j, None)" using j2 num2 by (rule run_cell_numeric)
  moreover have "\<exists>out2. titanic_no_outliers (outcome ?s2 j) = Some out2 \<and> subseq (rows out2) (rows out)"
    by (simp add: outcome_def Let_def)
  ultimately show ?thesis using first by blast
qed

theorem refilter_with_same_bounds_witness:
  "run_cell ''age'' (loaded skewed) = (fst (run_cell ''age'' (loaded skewed)), None) \<and>
   titanic_no_outliers (fst (run_cell ''age'' (loaded skewed))) = Some skewed_once \<and>
   assign_titanic_no_outliers ''age'' (fst (run_cell ''age'' (loaded skewed))\<lparr>titanic := skewed_once\<rparr>)
     = Inr (fst (run_cell ''age'' (loaded skewed))\<lparr>titanic := skewed_once\<rparr>)"
proof -
  have h1: "run_cell ''age'' (loaded skewed) = (fst (run_cell ''age'' (loaded skewed)), None)"
    by (simp add: run_skewed)
  have h2: "titanic_no_outliers (fst (run_cell ''age'' (loaded skewed))) = Some skewed_once"
    by (simp add: run_skewed)
  from refilter_with_same_bounds [OF h1 h2] h1 h2 show ?thesis by blast
qed

subsection \<open>C3: failures\<close>

text \<open>
  C3, as stated: a column with no non-missing number is a failure, raised before any
  quartile is computed. The code has no such failure: on a column of missing values the
  cell ends without an exception, with NaN quartiles and bounds and an empty frame.
\<close>

theorem empty_column_counterexample:
  "run_cell ''age'' (loaded all_missing) =
     (loaded all_missing
        \<lparr>Q1 := Some NaN, Q3 := Some NaN, IQR := Some NaN, lower_bound := Some NaN,
         upper_bound := Some NaN,
         titanic_no_outliers := Some \<lparr>columns = [''age''], rows = []\<rparr>\<rparr>, None)"
  by (rule run_all_missing)

text \<open>
  C3, amended: the cell fails in exactly two cases, a KeyError when the frame has no such
  column and a TypeError when the column holds a non-numeric object; a column with no
  non-missing number is not a failure. A failure is raised by the first statement: no
  variable of the cell is assigned and no frame is returned.
\<close>

theorem failure_modes:
  "snd (run_cell c s) =
     (case getitem (titanic s) c of
        Inl e \<Rightarrow> Some KeyError
      | Inr col \<Rightarrow> if list_ex is_obj col then Some TypeError else None) \<and>
   (snd (run_cell c s) \<noteq> None \<longrightarrow> fst (run_cell c s) = s)"
proof (cases "index_of (columns (titanic s)) c")
  case None
  then show ?thesis by (simp add: run_cell_missing_column getitem_def)
next
  case (Some j)
  show ?thesis
  proof (cases "list_ex is_obj (map (cell_at j) (rows (titanic s)))")
    case True
    with Some show ?thesis by (simp add: run_cell_object_column getitem_def)
  next
    case False
    with Some show ?thesis by (simp add: run_cell_numeric getitem_def)
  qed
qed

theorem failure_modes_witness:
  "snd (run_cell ''age'' (loaded no_age)) \<noteq> None \<and>
   fst (run_cell ''age'' (loaded no_age)) = loaded no_age \<and>
   snd (run_cell ''age'' (loaded age_words)) \<noteq> None \<and>
   fst (run_cell ''age'' (loaded age_words)) = loaded age_words"
proof -
  have h1: "snd (run_cell ''age'' (loaded no_age)) \<noteq> None" by (simp add: run_no_age)
  have h2: "snd (run_cell ''age'' (loaded age_words)) \<noteq> None" by (simp add: run_age_words)
  from failure_modes [of "''age''" "loaded no_age"] failure_modes [of "''age''" "loaded age_words"]
    h1 h2 show ?thesis by blast
qed

subsection \<open>C4: missing values\<close>

text \<open>
  C4: the quartiles, and with them the bounds, are those of the non-missing values: the
  cell run on the frame without the rows whose target cell is missing assigns the same
  Q1, Q3, IQR and bounds and returns the same frame. No row whose target cell is missing
  is in the returned frame.
\<close>

theorem missing_values_excluded:
  assumes "run_cell c s = (s', None)" and "index_of (columns (titanic s)) c = Some j"
  shows "\<exists>s'' out. run_cell c (s\<lparr>titanic := without_missing j (titanic s)\<rparr>) = (s'', None) \<and>
           Q1 s'' = Q1 s' \<and> Q3 s'' = Q3 s' \<and> IQR s'' = IQR s' \<and>
           lower_bound s'' = lower_bound s' \<and> upper_bound s'' = upper_bound s' \<and>
           titanic_no_outliers s'' = titanic_no_outliers s' \<and>
           titanic_no_outliers s' = Some out \<and>
           (\<forall>r\<in>set (rows (titanic s)). cell_at j r = F NaN \<longrightarrow> r \<notin> set (rows out))"
proof -
  from assms(1) obtain j' where j': "index_of (columns (titanic s)) c = Some j'"
    and num': "\<not> list_ex is_obj (map (cell_at j') (rows (titanic s)))"
    and s'': "s' = outcome s j'" by (rule run_cell_success)
  from j' assms(2) have [simp]: "j' = j" by simp
  have num: "\<not> list_ex is_obj (map (cell_at j) (rows (titanic s)))" using num' by simp
  have s': "s' = outcome s j" using s'' by simp
  let ?rs = "rows (titanic s)"
  let ?s2 = "s\<lparr>titanic := without_missing j (titanic s)\<rparr>"
  have j2: "index_of (columns (titanic ?s2)) c = Some j"
    using assms(2) by (simp add: without_missing_def)
  have num2: "\<not> list_ex is_obj (map (cell_at j) (rows (titanic ?s2)))"
    using list_ex_filter [OF num] by (simp add: without_missing_def)
  have run2: "run_cell c ?s2 = (outcome ?s2 j, None)" using j2 num2 by (rule run_cell_numeric)
  have q: "quartile (map (cell_at j) (filter (\<lambda>r. cell_at j r \<noteq> F NaN) ?rs)) p
         = quartile (map (cell_at j) ?rs) p" for p
    by (simp add: quartile_def dropna_without_missing)
  have flt: "filter (\<lambda>r. cell_at j r \<noteq> F NaN \<and> in_bounds lo hi (cell_at j r)) ?rs
           = filter (\<lambda>r. in_bounds lo hi (cell_at j r)) ?rs" for lo hi
    by (rule filter_cong) (auto dest: in_bounds_not_missing)
  have same: "Q1 (outcome ?s2 j) = Q1 s'" "Q3 (outcome ?s2 j) = Q3 s'"
    "IQR (outcome ?s2 j) = IQR s'" "lower_bound (outcome ?s2 j) = lower_bound s'"
    "upper_bound (outcome ?s2 j) = upper_bound s'"
    "titanic_no_outliers (outcome ?s2 j) = titanic_no_outliers s'"
    unfolding s' by (simp_all add: outcome_def Let_def without_missing_def q flt)
  have "\<exists>out. titanic_no_outliers s' = Some out \<and>
          (\<forall>r\<in>set ?rs. cell_at j r = F NaN \<longrightarrow> r \<notin> set (rows out))"
    unfolding s' by (auto simp: outcome_def Let_def dest: in_bounds_not_missing)
  with run2 same show ?thesis by blast
qed

theorem missing_values_excluded_witness:
  "run_cell ''age'' (loaded with_missing) = (fst (run_cell ''age'' (loaded with_missing)), None) \<and>
   index_of (columns (titanic (loaded with_missing))) ''age'' = Some 1 \<and>
   (\<exists>s'' out.
      run_cell ''age'' ((loaded with_missing)\<lparr>titanic := without_missing 1 (titanic (loaded with_missing))\<rparr>)
        = (s'', None) \<and>
      Q1 s'' = Q1 (fst (run_cell ''age'' (loaded with_missing))) \<and>
      Q3 s'' = Q3 (fst (run_cell ''age'' (loaded with_missing))) \<and>
      titanic_no_outliers (fst (run_cell ''age'' (loaded with_missing))) = Some out \<and>
      (2, [Obj ''c'', F NaN]) \<notin> set (rows out))"
proof -
  have h1: "run_cell ''age'' (loaded with_missing)
      = (fst (run_cell ''age'' (loaded with_missing)), None)"
    by (simp add: run_with_missing)
  have h2: "index_of (columns (titanic (loaded with_missing))) ''age'' = Some 1"
    by code_simp
  have h3: "(2, [Obj ''c'', F NaN]) \<in> set (rows (titanic (loaded with_missing)))"
    by code_simp
  have h4: "cell_at 1 (2, [Obj ''c'', F NaN]) = F NaN"
    by code_simp
  from missing_values_excluded [OF h1 h2] h1 h2 h3 h4 show ?thesis by blast
qed

subsection \<open>C5: the inclusive range\<close>

text \<open>
  C5, as stated: a row is in the returned frame exactly when its value lies between the
  bounds, and is dropped when the value is strictly outside. In the unsigned column that
  holds \<open>2 ^ 63\<close> four times and \<open>2 ^ 63 + 1000\<close> once, the upper bound is \<open>2 ^ 63\<close>
  and the row with \<open>2 ^ 63 + 1000\<close>, strictly above it, is in the returned frame: the
  comparison is made on the column cast to float64, where both integers are the same
  double.
\<close>

theorem inclusive_range_counterexample:
  "upper_bound (fst (run_cell ''age'' (loaded large_unsigned))) = Some (Fin 9223372036854775808) \<and>
   value_of (U 9223372036854776808) = Fin 9223372036854776808 \<and>
   kept (4, [U 9223372036854776808]) (remove_outliers large_unsigned ''age'')"
  unfolding remove_outliers_def run_large_unsigned
  by (simp add: large_unsigned_def)

text \<open>
  C5, amended: the returned frame holds exactly the rows of the input whose target cell,
  cast to float64 (an integer becomes the nearest double), is a number v with
  lower\_bound \<le> v \<le> upper\_bound, either end included, in the input's order and with
  the input's columns. On a column of doubles the cast changes nothing.
\<close>

theorem inclusive_range:
  assumes "run_cell c s = (s', None)" and "index_of (columns (titanic s)) c = Some j"
  shows "\<exists>lo hi out. lower_bound s' = Some lo \<and> upper_bound s' = Some hi \<and>
           titanic_no_outliers s' = Some out \<and> columns out = columns (titanic s) \<and>
           rows out = filter (\<lambda>r. fle lo (to_float (cell_at j r)) \<and> fle (to_float (cell_at j r)) hi)
                        (rows (titanic s))"
proof -
  from assms(1) obtain j' where j': "index_of (columns (titanic s)) c = Some j'"
    and s': "s' = outcome s j'" by (rule run_cell_success)
  from j' assms(2) have "j' = j" by simp
  with s' show ?thesis by (simp add: outcome_def Let_def in_bounds_def fge_def)
qed

theorem inclusive_range_witness:
  "run_cell ''age'' (loaded constant_with_outlier)
     = (fst (run_cell ''age'' (loaded constant_with_outlier)), None) \<and>
   index_of (columns (titanic (loaded constant_with_outlier))) ''age'' = Some 0 \<and>
   (\<exists>lo hi out.
      lower_bound (fst (run_cell ''age'' (loaded constant_with_outlier))) = Some lo \<and>
      upper_bound (fst (run_cell ''age'' (loaded constant_with_outlier))) = Some hi \<and>
      titanic_no_outliers (fst (run_cell ''age'' (loaded constant_with_outlier))) = Some out \<and>
      rows out = filter (\<lambda>r. fle lo (to_float (cell_at 0 r)) \<and> fle (to_float (cell_at 0 r)) hi)
                   (rows (titanic (loaded constant_with_outlier))))"
proof -
  have h1: "run_cell ''age'' (loaded constant_with_outlier)
      = (fst (run_cell ''age'' (loaded constant_with_outlier)), None)"
    by (simp add: run_constant_with_outlier)
  have h2: "index_of (columns (titanic (loaded constant_with_outlier))) ''age'' = Some 0"
    by code_simp
  from inclusive_range [OF h1 h2] h1 h2 show ?thesis by blast
qed

subsection \<open>C6: a subsequence of the input\<close>

text \<open>
  C6: when the cell succeeds, the rows of the returned frame are a subsequence of the
  rows of the input, in the input's order: there are at most as many, each is a row of
  the input (label and all cells), and the columns are the input's.
\<close>

theorem output_subsequence:
  assumes "run_cell c s = (s', None)"
  shows "\<exists>out. titanic_no_outliers s' = Some out \<and> columns out = columns (titanic s) \<and>
           subseq (rows out) (rows (titanic s)) \<and>
           length (rows out) \<le> length (rows (titanic s)) \<and>
           set (rows out) \<subseteq> set (rows (titanic s))"
proof -
  from assms obtain j where "s' = outcome s j" by (rule run_cell_success)
  then show ?thesis by (simp add: outcome_def Let_def)
qed

theorem output_subsequence_witness:
  "run_cell ''age'' (loaded ages) = (fst (run_cell ''age'' (loaded ages)), None) \<and>
   (\<exists>out. titanic_no_outliers (fst (run_cell ''age'' (loaded ages))) = Some out \<and>
      subseq (rows out) (rows (titanic (loaded ages))) \<and>
      length (rows out) \<le> length (rows (titanic (loaded ages))))"
proof -
  have h1: "run_cell ''age'' (loaded ages) = (fst (run_cell ''age'' (loaded ages)), None)"
    by (simp add: run_ages)
  from output_subsequence [OF h1] h1 show ?thesis by blast
qed

subsection \<open>C7: the order of the bounds\<close>




subsection \<open>C8: a constant column with one outlier\<close>




subsection \<open>C9: the input frame\<close>

text \<open>
  C9: whether the cell succeeds or fails, the variable titanic holds the same frame after
  the cell as before it (rows, cells, labels and order); the filtered frame is the value
  of another variable, titanic\_no\_outliers, which a successful run assigns.
\<close>

theorem input_unchanged:
  "titanic (fst (run_cell c s)) = titanic s \<and>
   (snd (run_cell c s) = None \<longrightarrow> titanic_no_outliers (fst (run_cell c s)) \<noteq> None)"
proof (cases "run_cell c s")
  case (Pair s' e)
  show ?thesis
  proof (cases e)
    case None
    with Pair have "run_cell c s = (s', None)" by simp
    then obtain j where "s' = outcome s j" by (rule run_cell_success)
    with Pair None show ?thesis by (simp add: outcome_def Let_def)
  next
    case (Some err)
    with Pair have "s' = s" by (simp add: run_cell_failure)
    with Pair Some show ?thesis by simp
  qed
qed

theorem input_unchanged_witness:
  "snd (run_cell ''age'' (loaded ages)) = None \<and>
   titanic (fst (run_cell ''age'' (loaded ages))) = titanic (loaded ages) \<and>
   titanic_no_outliers (fst (run_cell ''age'' (loaded ages))) \<noteq> None"
proof -
  have h1: "snd (run_cell ''age'' (loaded ages)) = None" by (simp add: run_ages)
  from input_unchanged [of "''age''" "loaded ages"] h1 show ?thesis by blast
qed

subsection \<open>C10: a column without numbers\<close>

text \<open>
  C10: when the target column exists and every cell of it is missing (also when the frame
  has no rows), the cell raises nothing: Q1, Q3, IQR and both bounds are NaN, and the
  returned frame has the input's columns and no rows.
\<close>

theorem empty_column_gives_empty_frame:
  assumes "getitem (titanic s) c = Inr col" and "\<forall>x\<in>set col. x = F NaN"
  shows "run_cell c s =
     (s\<lparr>Q1 := Some NaN, Q3 := Some NaN, IQR := Some NaN, lower_bound := Some NaN,
        upper_bound := Some NaN,
        titanic_no_outliers := Some \<lparr>columns = columns (titanic s), rows = []\<rparr>\<rparr>, None)"
proof -
  from assms(1) obtain j where j: "index_of (columns (titanic s)) c = Some j"
    and col: "col = map (cell_at j) (rows (titanic s))"
    by (auto simp: getitem_def split: option.splits)
  have "\<not> list_ex is_obj (map (cell_at j) (rows (titanic s)))"
    using not_obj_all_missing [OF assms(2)] col by simp
  then have "run_cell c s = (outcome s j, None)" by (rule run_cell_numeric [OF j])
  moreover have "dropna (map (cell_at j) (rows (titanic s))) = []"
    using dropna_all_missing [OF assms(2)] col by simp
  ultimately show ?thesis by (simp add: outcome_def quartile_def Let_def fsub_def)
qed

theorem empty_column_gives_empty_frame_witness:
  "getitem (titanic (loaded all_missing)) ''age'' = Inr [F NaN, F NaN] \<and>
   list_all (\<lambda>x. x = F NaN) [F NaN, F NaN] \<and>
   run_cell ''age'' (loaded all_missing) =
     ((loaded all_missing)\<lparr>Q1 := Some NaN, Q3 := Some NaN, IQR := Some NaN,
        lower_bound := Some NaN, upper_bound := Some NaN,
        titanic_no_outliers := Some \<lparr>columns = columns (titanic (loaded all_missing)), rows = []\<rparr>\<rparr>,
      None)"
proof -
  have h1: "getitem (titanic (loaded all_missing)) ''age'' = Inr [F NaN, F NaN]" by code_simp
  have h2: "\<forall>x\<in>set [F NaN, F NaN]. x = F NaN" by simp
  have h2': "list_all (\<lambda>x. x = F NaN) [F NaN, F NaN]" by simp
  from empty_column_gives_empty_frame [OF h1 h2] h1 h2' show ?thesis by blast
qed

end
